theory Spec2Isabelle
  imports Main "HOL-Library.Word"
begin

section \<open>Values exchanged with the outside\<close>

text \<open>
  The check-in endpoint is glue between an HTTP request, a static location registry and
  a handful of external collaborators (the key parser of the ledger library, the RPC
  connection, the instruction builders of the deployed program, signing and
  serialisation).  Each collaborator is a field of the record \<open>env\<close> below; an
  exception is a value \<open>Inl e\<close> of a sum type, so that every \<open>throw\<close> and every
  \<open>catch\<close> of the source is a branch of the model.
\<close>

text \<open>A public key, identified with its base58 text (what \<open>toString()\<close> prints).\<close>

datatype pubkey = PublicKey (toBase58: string)

text \<open>
  A thrown value is an object whose \<open>message\<close> field may be missing (\<open>None\<close>), empty, or a
  non-empty text.  The handler itself throws \<open>{ message: ... }\<close> literals; the libraries
  throw \<open>Error\<close> objects.  (No collaborator throws \<open>null\<close> or \<open>undefined\<close>, whose
  \<open>message\<close> could not even be read.)
\<close>

datatype thrown = Thrown (message: "string option")

text \<open>JavaScript truthiness of a possibly missing string: missing and empty are falsy.\<close>

definition truthy :: "string option \<Rightarrow> bool" where
  "truthy v = (case v of None \<Rightarrow> False | Some s \<Rightarrow> s \<noteq> [])"

text \<open>
  A query parameter is \<open>string | string[] | undefined\<close>; the missing case is \<open>None\<close> of
  the option type.  An array is always truthy, and \<open>toString()\<close> joins it with commas.
  Of the request the handler reads \<open>req.method\<close>, \<open>req.body\<close>, \<open>req.query.reference\<close> and
  \<open>req.query.id\<close>.  The parsed body is either \<open>null\<close> or \<open>undefined\<close> (\<open>Nullish\<close>: a JSON
  body \<open>null\<close>, say), or a value whose \<open>account\<close> property is a text or is missing
  (\<open>Body (Some a)\<close>, \<open>Body None\<close>).
\<close>

datatype param = Str string | StrList "string list"

fun join_commas :: "string list \<Rightarrow> string" where
  "join_commas [] = []"
| "join_commas [s] = s"
| "join_commas (s # t # ss) = s @ '','' @ join_commas (t # ss)"

fun toString :: "param \<Rightarrow> string" where
  "toString (Str s) = s"
| "toString (StrList ss) = join_commas ss"

definition truthy_param :: "param option \<Rightarrow> bool" where
  "truthy_param v = (case v of None \<Rightarrow> False | Some (Str s) \<Rightarrow> s \<noteq> [] | Some (StrList ss) \<Rightarrow> True)"

datatype request_body = Nullish | Body "string option"

record request =
  http_method :: "string option"
  req_body :: request_body
  query_reference :: "param option"
  query_id :: "param option"

datatype body =
    Descriptor string string
  | ErrorBody string
  | TransactionBody string string

record response =
  status :: nat
  body :: body

text \<open>
  The handler either sends a response, or lets an exception escape: the destructuring
  \<open>const {account} = req.body\<close> stands before the \<open>try\<close> of \<open>post\<close>, and raises a
  \<open>TypeError\<close> on a body that is \<open>null\<close> or \<open>undefined\<close>.
\<close>

datatype outcome = Responded response | UncaughtTypeError

section \<open>Registry, user state, instructions, transactions\<close>

record location =
  index :: int
  key :: pubkey

record userState =
  user :: pubkey
  stateGameId :: pubkey
  lastLocation :: pubkey

record keypair =
  publicKey :: pubkey
  secretKey :: "8 word list"

record account_meta =
  pubkey :: pubkey
  isSigner :: bool
  isWritable :: bool

text \<open>The two methods of the deployed program, with the arguments the source passes.\<close>

datatype method_call = Initialize pubkey | CheckIn pubkey pubkey

record instruction =
  call :: method_call
  keys :: "account_meta list"

record transaction =
  feePayer :: pubkey
  recentBlockhash :: string
  lastValidBlockHeight :: nat
  instructions :: "instruction list"
  signatures :: "pubkey list"

record serialize_config =
  requireAllSignatures :: bool

text \<open>The two reads that go over the network.\<close>

datatype rpc_call = FetchUserState pubkey | GetLatestBlockhash

text \<open>
  The surroundings of the handler.  \<open>locations\<close>, \<open>gameId\<close>, \<open>programId\<close> and
  \<open>eventOrganizer\<close> are the module-level constants the source imports or loads at
  start-up.  The other fields are the library calls, each with its possible exception:
  \<open>newPublicKey\<close> is \<open>new PublicKey(x)\<close>; \<open>toNumber\<close> is \<open>new Number(id).valueOf()\<close>,
  \<open>None\<close> standing for \<open>NaN\<close> and for any value that is not a whole number (registry
  indices are whole numbers, small enough for \<open>+ 1\<close> to be exact);
  \<open>fetch\<close> is \<open>program.account.userState.fetch\<close>, which throws when the account does not
  exist; \<open>buildInstruction\<close> is the program's \<open>.accounts(...).instruction()\<close>,
  returning the account list it resolved; \<open>partialSignThrows\<close> tells whether
  \<open>partialSign\<close> rejects the signer; \<open>serialize\<close> is \<open>Transaction.serialize\<close>.
\<close>

record env =
  locations :: "location list"
  gameId :: pubkey
  programId :: pubkey
  eventOrganizer :: keypair
  newPublicKey :: "param \<Rightarrow> thrown + pubkey"
  toNumber :: "string \<Rightarrow> int option"
  findProgramAddressSync :: "pubkey list \<Rightarrow> pubkey \<Rightarrow> pubkey"
  fetch :: "pubkey \<Rightarrow> thrown + userState"
  getLatestBlockhash :: "thrown + (string \<times> nat)"
  buildInstruction :: "method_call \<Rightarrow> (string \<times> pubkey) list \<Rightarrow> thrown + account_meta list"
  partialSignThrows :: "transaction \<Rightarrow> keypair \<Rightarrow> thrown option"
  serialize :: "serialize_config \<Rightarrow> transaction \<Rightarrow> thrown + 8 word list"

section \<open>Library operations with a fixed meaning\<close>

text \<open>\<open>Buffer.toString('base64')\<close>: three bytes become four letters, padded with \<open>=\<close>.\<close>

definition base64_alphabet :: string where
  "base64_alphabet = ''ABCDEFGHIJKLMNOPQRSTUVWXYZabcdefghijklmnopqrstuvwxyz0123456789+/''"

definition sextet :: "nat \<Rightarrow> char" where
  "sextet n = base64_alphabet ! (n mod 64)"

fun base64 :: "8 word list \<Rightarrow> string" where
  "base64 [] = []"
| "base64 [a] =
     [sextet (unat a div 4), sextet ((unat a mod 4) * 16), CHR ''='', CHR ''='']"
| "base64 [a, b] =
     [sextet (unat a div 4), sextet ((unat a mod 4) * 16 + unat b div 16),
      sextet ((unat b mod 16) * 4), CHR ''='']"
| "base64 (a # b # c # rest) =
     [sextet (unat a div 4), sextet ((unat a mod 4) * 16 + unat b div 16),
      sextet ((unat b mod 16) * 4 + unat c div 64), sextet (unat c mod 64)] @ base64 rest"

text \<open>\<open>Transaction.add\<close> appends an instruction.\<close>

definition add :: "transaction \<Rightarrow> instruction \<Rightarrow> transaction" where
  "add tx ix = tx\<lparr>instructions := instructions tx @ [ix]\<rparr>"

text \<open>
  \<open>Transaction.partialSign\<close>: unless the library rejects the signer, the signer's public
  key joins the keys that have signed.
\<close>

definition partialSign :: "env \<Rightarrow> transaction \<Rightarrow> keypair \<Rightarrow> thrown + transaction" where
  "partialSign env tx kp =
     (case partialSignThrows env tx kp of
        Some e \<Rightarrow> Inl e
      | None \<Rightarrow> Inr (tx\<lparr>signatures := signatures tx @ [publicKey kp]\<rparr>))"

text \<open>
  Modelled from the spec: \<open>locationAtIndex\<close> of \<open>utils/locations\<close>, which is not among the
  sources.  The spec's contract for the registry: given an index, return the matching
  location or "not found".
\<close>

definition locationAtIndex :: "location list \<Rightarrow> int option \<Rightarrow> location option" where
  "locationAtIndex locs n =
     (case n of None \<Rightarrow> None | Some i \<Rightarrow> find (\<lambda>l. index l = i) locs)"

section \<open>The handler\<close>

definition get :: response where
  "get = \<lparr>status = 200,
          body = Descriptor ''Scavenger Hunt!''
                   ''https://solana.com/src/img/branding/solanaLogoMark.svg''\<rparr>"

text \<open>\<open>fetchUserState\<close>: the address derivation is outside the \<open>try\<close>, the read inside.\<close>

definition fetchUserState :: "env \<Rightarrow> pubkey \<Rightarrow> rpc_call list \<times> userState option" where
  "fetchUserState env account =
     (let userStatePDA = findProgramAddressSync env [gameId env, account] (programId env)
      in ([FetchUserState userStatePDA],
          case fetch env userStatePDA of Inr st \<Rightarrow> Some st | Inl _ \<Rightarrow> None))"

definition verifyCorrectLocation :: "location list \<Rightarrow> userState option \<Rightarrow> location \<Rightarrow> bool" where
  "verifyCorrectLocation locs userState currentLocation =
     (case userState of
        None \<Rightarrow> index currentLocation = 1
      | Some st \<Rightarrow>
          (case find (\<lambda>l. toBase58 (key l) = toBase58 (lastLocation st)) locs of
             None \<Rightarrow> False
           | Some lastLoc \<Rightarrow>
               if index currentLocation \<noteq> index lastLoc + 1 then False else True))"

definition createInitUserInstruction :: "env \<Rightarrow> pubkey \<Rightarrow> thrown + instruction" where
  "createInitUserInstruction env account =
     (case buildInstruction env (Initialize (gameId env)) [(''user'', account)] of
        Inl e \<Rightarrow> Inl e
      | Inr ks \<Rightarrow> Inr \<lparr>call = Initialize (gameId env), keys = ks\<rparr>)"

definition createCheckInInstruction ::
  "env \<Rightarrow> pubkey \<Rightarrow> pubkey \<Rightarrow> location \<Rightarrow> thrown + instruction" where
  "createCheckInInstruction env account reference loc =
     (case buildInstruction env (CheckIn (gameId env) (key loc))
             [(''user'', account), (''eventOrganizer'', publicKey (eventOrganizer env))] of
        Inl e \<Rightarrow> Inl e
      | Inr ks \<Rightarrow>
          Inr \<lparr>call = CheckIn (gameId env) (key loc),
               keys = ks @ [\<lparr>pubkey = reference, isSigner = False, isWritable = False\<rparr>]\<rparr>)"

text \<open>
  The last lines of \<open>buildTransaction\<close>, from the new \<open>Transaction\<close> \<open>tx0\<close> on, named so that
  they can be stated once: the initialise instruction when there is no user state, the
  check-in instruction, the organizer's signature, the serialisation that does not
  require all signatures, and its base64 text.  The first step that throws ends them.
\<close>

definition finishTransaction ::
  "env \<Rightarrow> pubkey \<Rightarrow> pubkey \<Rightarrow> location \<Rightarrow> userState option \<Rightarrow> transaction \<Rightarrow> thrown + string" where
  "finishTransaction env account reference currentLocation userState tx0 =
     (case (case userState of
              None \<Rightarrow> (case createInitUserInstruction env account of
                          Inl e \<Rightarrow> Inl e
                        | Inr ix \<Rightarrow> Inr (add tx0 ix))
            | Some _ \<Rightarrow> Inr tx0) of
        Inl e \<Rightarrow> Inl e
      | Inr tx1 \<Rightarrow>
          (case createCheckInInstruction env account reference currentLocation of
             Inl e \<Rightarrow> Inl e
           | Inr ix \<Rightarrow>
               (case partialSign env (add tx1 ix) (eventOrganizer env) of
                  Inl e \<Rightarrow> Inl e
                | Inr tx2 \<Rightarrow>
                    (case serialize env \<lparr>requireAllSignatures = False\<rparr> tx2 of
                       Inl e \<Rightarrow> Inl e
                     | Inr serializedTransaction \<Rightarrow> Inr (base64 serializedTransaction)))))"

definition buildTransaction ::
  "env \<Rightarrow> pubkey \<Rightarrow> pubkey \<Rightarrow> string \<Rightarrow> rpc_call list \<times> (thrown + string)" where
  "buildTransaction env account reference locationId =
     (let (calls, userState) = fetchUserState env account in
      case locationAtIndex (locations env) (toNumber env locationId) of
        None \<Rightarrow> (calls, Inl (Thrown (Some ''Invalid location id'')))
      | Some currentLocation \<Rightarrow>
          if \<not> verifyCorrectLocation (locations env) userState currentLocation
          then (calls, Inl (Thrown (Some ''You must visit each location in order!'')))
          else (calls @ [GetLatestBlockhash],
                case getLatestBlockhash env of
                  Inl e \<Rightarrow> Inl e
                | Inr (blockhash, height) \<Rightarrow>
                    finishTransaction env account reference currentLocation userState
                      \<lparr>feePayer = account, recentBlockhash = blockhash,
                       lastValidBlockHeight = height, instructions = [],
                       signatures = []\<rparr>))"

text \<open>
  The body of the \<open>try\<close> block of \<open>post\<close>: the two keys are parsed, left to right, before
  \<open>buildTransaction\<close> is entered.
\<close>

definition post_try :: "env \<Rightarrow> string \<Rightarrow> param \<Rightarrow> param \<Rightarrow> rpc_call list \<times> (thrown + string)" where
  "post_try env account reference locationId =
     (case newPublicKey env (Str account) of
        Inl e \<Rightarrow> ([], Inl e)
      | Inr accountKey \<Rightarrow>
          (case newPublicKey env reference of
             Inl e \<Rightarrow> ([], Inl e)
           | Inr referenceKey \<Rightarrow> buildTransaction env accountKey referenceKey (toString locationId)))"

definition post :: "env \<Rightarrow> request \<Rightarrow> rpc_call list \<times> outcome" where
  "post env req =
     (case req_body req of
        Nullish \<Rightarrow> ([], UncaughtTypeError)
      | Body account \<Rightarrow>
          if \<not> truthy account \<or> \<not> truthy_param (query_reference req)
             \<or> \<not> truthy_param (query_id req)
          then ([], Responded \<lparr>status = 400,
                               body = ErrorBody ''Missing required parameter(s)''\<rparr>)
          else
            (case post_try env (the account) (the (query_reference req))
                    (the (query_id req)) of
               (calls, Inr tx) \<Rightarrow>
                 (calls, Responded \<lparr>status = 200,
                          body = TransactionBody tx
                                   (''You've found location '' @ toString (the (query_id req))
                                      @ ''!'')\<rparr>)
             | (calls, Inl error) \<Rightarrow>
                 if truthy (message error)
                 then (calls, Responded \<lparr>status = 200,
                               body = TransactionBody '''' (the (message error))\<rparr>)
                 else (calls, Responded \<lparr>status = 500,
                               body = ErrorBody ''error creating transaction''\<rparr>)))"

definition handler :: "env \<Rightarrow> request \<Rightarrow> rpc_call list \<times> outcome" where
  "handler env req =
     (if http_method req = Some ''GET'' then ([], Responded get)
      else if http_method req = Some ''POST'' then post env req
      else ([], Responded \<lparr>status = 405, body = ErrorBody ''Method not allowed''\<rparr>))"

section \<open>A concrete registry and concrete surroundings\<close>

text \<open>
  The registry of the spec's example, one location longer, and surroundings in which
  every collaborator answers: any text but \<open>not-a-key\<close> parses as a key, no user has a
  state account yet, and serialisation insists on the fee payer's signature only when
  asked to require all signatures.
\<close>

definition demo_locations :: "location list" where
  "demo_locations =
     [\<lparr>index = 1, key = PublicKey ''K1''\<rparr>, \<lparr>index = 2, key = PublicKey ''K2''\<rparr>,
      \<lparr>index = 3, key = PublicKey ''K3''\<rparr>]"

definition demo_env :: env where
  "demo_env =
     \<lparr>locations = demo_locations,
      gameId = PublicKey ''Game'',
      programId = PublicKey ''Program'',
      eventOrganizer = \<lparr>publicKey = PublicKey ''Organizer'', secretKey = [7, 7, 7]\<rparr>,
      newPublicKey = (\<lambda>p. case p of
                        Str s \<Rightarrow> if s = ''not-a-key''
                                 then Inl (Thrown (Some ''Non-base58 character''))
                                 else Inr (PublicKey s)
                      | StrList ss \<Rightarrow> Inl (Thrown (Some ''Invalid public key input''))),
      toNumber = (\<lambda>s. if s = ''1'' then Some 1 else if s = ''2'' then Some 2
                      else if s = ''3'' then Some 3 else if s = ''99'' then Some 99
                      else None),
      findProgramAddressSync = (\<lambda>seeds prog. PublicKey (concat (map toBase58 seeds))),
      fetch = (\<lambda>pda. Inl (Thrown (Some ''Account does not exist''))),
      getLatestBlockhash = Inr (''Blockhash'', 100),
      buildInstruction = (\<lambda>m accs. Inr (map (\<lambda>(n, k). \<lparr>pubkey = k, isSigner = True,
                                                        isWritable = True\<rparr>) accs)),
      partialSignThrows = (\<lambda>tx kp. None),
      serialize = (\<lambda>cfg tx. if requireAllSignatures cfg \<and> feePayer tx \<notin> set (signatures tx)
                            then Inl (Thrown (Some ''Signature verification failed''))
                            else Inr [of_nat (length (instructions tx)),
                                      of_nat (length (signatures tx))])\<rparr>"

text \<open>The same surroundings for a player whose last check-in was at location 1.\<close>

definition demo_env_visited :: env where
  "demo_env_visited =
     demo_env\<lparr>fetch := (\<lambda>pda. Inr \<lparr>user = PublicKey ''Alice'', stateGameId = PublicKey ''Game'',
                                     lastLocation = PublicKey ''K1''\<rparr>)\<rparr>"

text \<open>The same surroundings when the blockhash cannot be fetched.\<close>

definition demo_env_offline :: env where
  "demo_env_offline =
     demo_env\<lparr>getLatestBlockhash := Inl (Thrown (Some ''failed to get recent blockhash''))\<rparr>"

definition demo_request :: "string \<Rightarrow> request" where
  "demo_request i =
     \<lparr>http_method = Some ''POST'', req_body = Body (Some ''Alice''),
      query_reference = Some (Str ''Ref''), query_id = Some (Str i)\<rparr>"

section \<open>How a request flows through the handler\<close>

lemma post_try_parsed:
  "newPublicKey env (Str a) = Inr account \<Longrightarrow> newPublicKey env r = Inr reference \<Longrightarrow>
   post_try env a r i = buildTransaction env account reference (toString i)"
  by (simp add: post_try_def)

lemma handler_post_present:
  assumes "http_method req = Some ''POST''"
    and "req_body req = Body (Some a)" "a \<noteq> []"
    and "query_reference req = Some r" "truthy_param (Some r)"
    and "query_id req = Some i" "truthy_param (Some i)"
  shows "handler env req =
     (case post_try env a r i of
        (calls, Inr tx) \<Rightarrow>
          (calls, Responded \<lparr>status = 200,
                   body = TransactionBody tx (''You've found location '' @ toString i @ ''!'')\<rparr>)
      | (calls, Inl error) \<Rightarrow>
          if truthy (message error)
          then (calls, Responded \<lparr>status = 200, body = TransactionBody '''' (the (message error))\<rparr>)
          else (calls, Responded \<lparr>status = 500, body = ErrorBody ''error creating transaction''\<rparr>))"
  using assms
  by (auto simp: handler_def post_def truthy_def split: prod.splits sum.splits)

lemma handler_post_thrown:
  assumes "http_method req = Some ''POST''"
    and "req_body req = Body (Some a)" "a \<noteq> []"
    and "query_reference req = Some r" "truthy_param (Some r)"
    and "query_id req = Some i" "truthy_param (Some i)"
    and "snd (post_try env a r i) = Inl e"
  shows "snd (handler env req) =
     (if truthy (message e)
      then Responded \<lparr>status = 200, body = TransactionBody '''' (the (message e))\<rparr>
      else Responded \<lparr>status = 500, body = ErrorBody ''error creating transaction''\<rparr>)"
  using assms(8) by (cases "post_try env a r i") (simp add: handler_post_present [OF assms(1-7)])

lemma handler_post_returned:
  assumes "http_method req = Some ''POST''"
    and "req_body req = Body (Some a)" "a \<noteq> []"
    and "query_reference req = Some r" "truthy_param (Some r)"
    and "query_id req = Some i" "truthy_param (Some i)"
    and "snd (post_try env a r i) = Inr s"
  shows "snd (handler env req) =
     Responded \<lparr>status = 200,
      body = TransactionBody s (''You've found location '' @ toString i @ ''!'')\<rparr>"
  using assms(8) by (cases "post_try env a r i") (simp add: handler_post_present [OF assms(1-7)])

lemma fst_handler_post:
  assumes "http_method req = Some ''POST''"
    and "req_body req = Body (Some a)" "a \<noteq> []"
    and "query_reference req = Some r" "truthy_param (Some r)"
    and "query_id req = Some i" "truthy_param (Some i)"
  shows "fst (handler env req) = fst (post_try env a r i)"
  by (cases "post_try env a r i") (simp add: handler_post_present [OF assms] split: sum.splits)

lemma fst_fetchUserState:
  "fst (fetchUserState env account) =
     [FetchUserState (findProgramAddressSync env [gameId env, account] (programId env))]"
  by (simp add: fetchUserState_def Let_def)

lemma snd_fetchUserState:
  "snd (fetchUserState env account) =
     (case fetch env (findProgramAddressSync env [gameId env, account] (programId env)) of
        Inr st \<Rightarrow> Some st | Inl e \<Rightarrow> None)"
  by (simp add: fetchUserState_def Let_def)

lemma buildTransaction_unresolved:
  "locationAtIndex (locations env) (toNumber env i) = None \<Longrightarrow>
   buildTransaction env account reference i =
     (fst (fetchUserState env account), Inl (Thrown (Some ''Invalid location id'')))"
  by (simp add: buildTransaction_def split_beta Let_def)

lemma buildTransaction_out_of_order:
  "locationAtIndex (locations env) (toNumber env i) = Some loc \<Longrightarrow>
   \<not> verifyCorrectLocation (locations env) (snd (fetchUserState env account)) loc \<Longrightarrow>
   buildTransaction env account reference i =
     (fst (fetchUserState env account),
      Inl (Thrown (Some ''You must visit each location in order!'')))"
  by (simp add: buildTransaction_def split_beta Let_def)

lemma buildTransaction_in_order:
  "locationAtIndex (locations env) (toNumber env i) = Some loc \<Longrightarrow>
   verifyCorrectLocation (locations env) (snd (fetchUserState env account)) loc \<Longrightarrow>
   buildTransaction env account reference i =
     (fst (fetchUserState env account) @ [GetLatestBlockhash],
      case getLatestBlockhash env of
        Inl e \<Rightarrow> Inl e
      | Inr (blockhash, height) \<Rightarrow>
          finishTransaction env account reference loc (snd (fetchUserState env account))
            \<lparr>feePayer = account, recentBlockhash = blockhash, lastValidBlockHeight = height,
             instructions = [], signatures = []\<rparr>)"
  by (simp add: buildTransaction_def split_beta Let_def)

text \<open>What a completed run of the tail of \<open>buildTransaction\<close> has gone through.\<close>

lemma finishTransaction_returned:
  assumes "finishTransaction env account reference loc st tx0 = Inr s"
  shows "\<exists>ck bytes pre.
           buildInstruction env (CheckIn (gameId env) (key loc))
             [(''user'', account), (''eventOrganizer'', publicKey (eventOrganizer env))] = Inr ck
         \<and> (case st of
               None \<Rightarrow> (\<exists>ik. buildInstruction env (Initialize (gameId env)) [(''user'', account)] = Inr ik
                          \<and> pre = [\<lparr>call = Initialize (gameId env), keys = ik\<rparr>])
             | Some _ \<Rightarrow> pre = [])
         \<and> serialize env \<lparr>requireAllSignatures = False\<rparr>
              (tx0\<lparr>instructions := instructions tx0 @ pre @
                     [\<lparr>call = CheckIn (gameId env) (key loc),
                       keys = ck @ [\<lparr>pubkey = reference, isSigner = False, isWritable = False\<rparr>]\<rparr>],
                   signatures := signatures tx0 @ [publicKey (eventOrganizer env)]\<rparr>) = Inr bytes
         \<and> s = base64 bytes"
  using assms
  by (auto simp: finishTransaction_def createInitUserInstruction_def createCheckInInstruction_def
        partialSign_def add_def split: option.splits sum.splits)

lemma buildTransaction_returned:
  assumes "snd (buildTransaction env account reference i) = Inr s"
  shows "\<exists>loc blockhash height ck bytes pre.
           locationAtIndex (locations env) (toNumber env i) = Some loc
         \<and> verifyCorrectLocation (locations env) (snd (fetchUserState env account)) loc
         \<and> getLatestBlockhash env = Inr (blockhash, height)
         \<and> (case snd (fetchUserState env account) of
               None \<Rightarrow> (\<exists>ik. pre = [\<lparr>call = Initialize (gameId env), keys = ik\<rparr>])
             | Some _ \<Rightarrow> pre = [])
         \<and> serialize env \<lparr>requireAllSignatures = False\<rparr>
              \<lparr>feePayer = account, recentBlockhash = blockhash, lastValidBlockHeight = height,
               instructions = pre @
                 [\<lparr>call = CheckIn (gameId env) (key loc),
                   keys = ck @ [\<lparr>pubkey = reference, isSigner = False, isWritable = False\<rparr>]\<rparr>],
               signatures = [publicKey (eventOrganizer env)]\<rparr> = Inr bytes
         \<and> s = base64 bytes"
proof (cases "locationAtIndex (locations env) (toNumber env i)")
  case None
  with assms show ?thesis by (simp add: buildTransaction_unresolved)
next
  case (Some loc)
  show ?thesis
  proof (cases "verifyCorrectLocation (locations env) (snd (fetchUserState env account)) loc")
    case False
    with Some assms show ?thesis by (simp add: buildTransaction_out_of_order)
  next
    case True
    from assms obtain blockhash height where bh: "getLatestBlockhash env = Inr (blockhash, height)"
      and fin: "finishTransaction env account reference loc (snd (fetchUserState env account))
            \<lparr>feePayer = account, recentBlockhash = blockhash, lastValidBlockHeight = height,
             instructions = [], signatures = []\<rparr> = Inr s"
      by (auto simp: buildTransaction_in_order [OF Some True] split: sum.splits)
    from finishTransaction_returned [OF fin] obtain ck bytes pre where
      pre: "case snd (fetchUserState env account) of
               None \<Rightarrow> (\<exists>ik. buildInstruction env (Initialize (gameId env)) [(''user'', account)] = Inr ik
                          \<and> pre = [\<lparr>call = Initialize (gameId env), keys = ik\<rparr>])
             | Some _ \<Rightarrow> pre = []"
      and ser: "serialize env \<lparr>requireAllSignatures = False\<rparr>
              \<lparr>feePayer = account, recentBlockhash = blockhash, lastValidBlockHeight = height,
               instructions = pre @
                 [\<lparr>call = CheckIn (gameId env) (key loc),
                   keys = ck @ [\<lparr>pubkey = reference, isSigner = False, isWritable = False\<rparr>]\<rparr>],
               signatures = [publicKey (eventOrganizer env)]\<rparr> = Inr bytes"
      and s: "s = base64 bytes"
      by auto
    from pre have pre': "case snd (fetchUserState env account) of
               None \<Rightarrow> (\<exists>ik. pre = [\<lparr>call = Initialize (gameId env), keys = ik\<rparr>])
             | Some _ \<Rightarrow> pre = []"
      by (auto split: option.splits)
    from Some True bh pre' ser s show ?thesis by blast
  qed
qed

section \<open>Request validation and the error surface\<close>

text \<open>
  A POST request whose parsed body is not \<open>null\<close> or \<open>undefined\<close>, and in which the account,
  the reference or the id is absent, is answered with status 400 and the error "Missing
  required parameter(s)"; the list of network reads made for the request is empty, so
  neither the user state nor a blockhash has been fetched when the answer is produced.
\<close>

lemma missing_parameter_is_rejected:
  assumes "http_method req = Some ''POST''"
    and "req_body req = Body account"
    and "account = None \<or> query_reference req = None \<or> query_id req = None"
  shows "handler env req =
           ([], Responded \<lparr>status = 400, body = ErrorBody ''Missing required parameter(s)''\<rparr>)"
  using assms by (auto simp: handler_def post_def truthy_def truthy_param_def)

lemma missing_parameter_is_rejected_example:
  "handler demo_env ((demo_request ''1'')\<lparr>req_body := Body None\<rparr>) =
     ([], Responded \<lparr>status = 400, body = ErrorBody ''Missing required parameter(s)''\<rparr>)
   \<and> handler demo_env ((demo_request ''1'')\<lparr>query_reference := None\<rparr>) =
     ([], Responded \<lparr>status = 400, body = ErrorBody ''Missing required parameter(s)''\<rparr>)
   \<and> handler demo_env ((demo_request ''1'')\<lparr>query_id := None\<rparr>) =
     ([], Responded \<lparr>status = 400, body = ErrorBody ''Missing required parameter(s)''\<rparr>)"
  using missing_parameter_is_rejected
      [of "(demo_request ''1'')\<lparr>req_body := Body None\<rparr>" None demo_env]
    missing_parameter_is_rejected
      [of "(demo_request ''1'')\<lparr>query_reference := None\<rparr>" "Some ''Alice''" demo_env]
    missing_parameter_is_rejected
      [of "(demo_request ''1'')\<lparr>query_id := None\<rparr>" "Some ''Alice''" demo_env]
  by (simp add: demo_request_def)

text \<open>
  Claim C5 says that every POST request in which the account is absent is answered with
  status 400 and "Missing required parameter(s)".  The handler means to do so (its comment
  reads "error if anything is missing"), but it takes \<open>account\<close> out of \<open>req.body\<close> before
  the test and outside the \<open>try\<close>: on a POST request whose parsed body is \<open>null\<close>, where
  no account is given, the destructuring raises a \<open>TypeError\<close> that nothing in the handler
  catches, and the 400 answer is never sent.  No network read has been made.
\<close>

theorem post_null_body_escapes_missing_parameter_check:
  "http_method ((demo_request ''1'')\<lparr>req_body := Nullish\<rparr>) = Some ''POST''
   \<and> handler demo_env ((demo_request ''1'')\<lparr>req_body := Nullish\<rparr>) = ([], UncaughtTypeError)
   \<and> snd (handler demo_env ((demo_request ''1'')\<lparr>req_body := Nullish\<rparr>)) \<noteq>
       Responded \<lparr>status = 400, body = ErrorBody ''Missing required parameter(s)''\<rparr>"
  by (simp add: handler_def post_def demo_request_def)

text \<open>
  Claim C10.  When the three parameters are present but the account, or else the
  reference, is not accepted by the key parser, and the error the parser throws carries
  a non-empty message, the answer is status 200 with an empty transaction field and the
  parser's message: neither the 400 answer for a missing parameter nor the 500 answer.
  Nothing has been read from the network.
\<close>

theorem post_invalid_public_key:
  assumes "http_method req = Some ''POST''"
    and "req_body req = Body (Some a)" "a \<noteq> []"
    and "query_reference req = Some r" "truthy_param (Some r)"
    and "query_id req = Some i" "truthy_param (Some i)"
    and "newPublicKey env (Str a) = Inl e
         \<or> (\<exists>account. newPublicKey env (Str a) = Inr account) \<and> newPublicKey env r = Inl e"
    and "message e = Some m" "m \<noteq> []"
  shows "handler env req = ([], Responded \<lparr>status = 200, body = TransactionBody '''' m\<rparr>)"
proof -
  from assms(8) have "post_try env a r i = ([], Inl e)"
    by (auto simp: post_try_def)
  with assms(9,10) show ?thesis
    by (simp add: handler_post_present [OF assms(1-7)] truthy_def)
qed

theorem post_invalid_public_key_witness:
  "handler demo_env ((demo_request ''1'')\<lparr>req_body := Body (Some ''not-a-key'')\<rparr>) =
     ([], Responded \<lparr>status = 200, body = TransactionBody '''' ''Non-base58 character''\<rparr>)
   \<and> handler demo_env ((demo_request ''1'')\<lparr>query_reference := Some (Str ''not-a-key'')\<rparr>) =
     ([], Responded \<lparr>status = 200, body = TransactionBody '''' ''Non-base58 character''\<rparr>)"
  using post_invalid_public_key
      [of "(demo_request ''1'')\<lparr>req_body := Body (Some ''not-a-key'')\<rparr>" "''not-a-key''"
          "Str ''Ref''" "Str ''1''" demo_env "Thrown (Some ''Non-base58 character'')"
          "''Non-base58 character''"]
    post_invalid_public_key
      [of "(demo_request ''1'')\<lparr>query_reference := Some (Str ''not-a-key'')\<rparr>" "''Alice''"
          "Str ''not-a-key''" "Str ''1''" demo_env "Thrown (Some ''Non-base58 character'')"
          "''Non-base58 character''"]
  by (simp add: demo_request_def demo_env_def truthy_param_def)

text \<open>
  Claim C4.  For a POST request whose three parameters are present and whose account and
  reference parse as keys, an id that resolves to no registered location is answered with
  status 200, an empty transaction field and the message "Invalid location id", whatever
  the read of the user's state account returns (a state, any state, or an error).  The
  decision is taken before the ordering check and before the blockhash is requested: the
  only network read is the one of the state account.  \<open>buildTransaction\<close> itself throws
  that message for every account and reference, whatever the read returns.
\<close>

theorem unresolved_id_is_invalid_location:
  assumes "http_method req = Some ''POST''"
    and "req_body req = Body (Some a)" "a \<noteq> []"
    and "query_reference req = Some r" "truthy_param (Some r)"
    and "query_id req = Some i" "truthy_param (Some i)"
    and "newPublicKey env (Str a) = Inr account" "newPublicKey env r = Inr reference"
    and "locationAtIndex (locations env) (toNumber env (toString i)) = None"
  shows "handler (env\<lparr>fetch := f\<rparr>) req =
           ([FetchUserState (findProgramAddressSync env [gameId env, account] (programId env))],
            Responded \<lparr>status = 200, body = TransactionBody '''' ''Invalid location id''\<rparr>)
       \<and> buildTransaction (env\<lparr>fetch := f\<rparr>) anyAccount anyReference (toString i) =
           ([FetchUserState (findProgramAddressSync env [gameId env, anyAccount] (programId env))],
            Inl (Thrown (Some ''Invalid location id'')))"
proof
  show "buildTransaction (env\<lparr>fetch := f\<rparr>) anyAccount anyReference (toString i) =
           ([FetchUserState (findProgramAddressSync env [gameId env, anyAccount] (programId env))],
            Inl (Thrown (Some ''Invalid location id'')))"
    using assms(10) by (simp add: buildTransaction_unresolved fst_fetchUserState)
next
  let ?env = "env\<lparr>fetch := f\<rparr>"
  have "post_try ?env a r i = buildTransaction ?env account reference (toString i)"
    using assms(8,9) by (simp add: post_try_parsed)
  also have "\<dots> = (fst (fetchUserState ?env account), Inl (Thrown (Some ''Invalid location id'')))"
    using assms(10) by (simp add: buildTransaction_unresolved)
  finally show "handler ?env req =
           ([FetchUserState (findProgramAddressSync env [gameId env, account] (programId env))],
            Responded \<lparr>status = 200, body = TransactionBody '''' ''Invalid location id''\<rparr>)"
    by (simp add: handler_post_present [OF assms(1-7)] truthy_def fst_fetchUserState)
qed

theorem unresolved_id_is_invalid_location_witness:
  "handler demo_env (demo_request ''99'') =
     ([FetchUserState (PublicKey ''GameAlice'')],
      Responded \<lparr>status = 200, body = TransactionBody '''' ''Invalid location id''\<rparr>)
   \<and> handler demo_env_visited (demo_request ''99'') =
     ([FetchUserState (PublicKey ''GameAlice'')],
      Responded \<lparr>status = 200, body = TransactionBody '''' ''Invalid location id''\<rparr>)
   \<and> buildTransaction demo_env_visited (PublicKey ''Bob'') (PublicKey ''Ref2'') ''99'' =
     ([FetchUserState (PublicKey ''GameBob'')], Inl (Thrown (Some ''Invalid location id'')))"
  using unresolved_id_is_invalid_location
      [of "demo_request ''99''" "''Alice''" "Str ''Ref''" "Str ''99''" demo_env
          "PublicKey ''Alice''" "PublicKey ''Ref''" "fetch demo_env"]
    unresolved_id_is_invalid_location
      [of "demo_request ''99''" "''Alice''" "Str ''Ref''" "Str ''99''" demo_env
          "PublicKey ''Alice''" "PublicKey ''Ref''" "fetch demo_env_visited"
          "PublicKey ''Bob''" "PublicKey ''Ref2''"]
  by (simp add: demo_request_def demo_env_def demo_env_visited_def demo_locations_def
        truthy_param_def locationAtIndex_def)

text \<open>
  Claim C3, as stated, fails: when the blockhash cannot be fetched and the error carries
  a message, as the errors of the RPC client do, the answer is status 200 with that
  message and an empty transaction field, not status 500.
\<close>

theorem unexpected_failure_counterexample:
  "getLatestBlockhash demo_env_offline = Inl (Thrown (Some ''failed to get recent blockhash''))
   \<and> handler demo_env_offline (demo_request ''1'') =
       ([FetchUserState (PublicKey ''GameAlice''), GetLatestBlockhash],
        Responded \<lparr>status = 200, body = TransactionBody '''' ''failed to get recent blockhash''\<rparr>)"
  by code_simp

text \<open>
  Claim C3, amended.  For a POST request with the three parameters present: whatever is
  thrown while the transaction is prepared is answered with status 200, an empty
  transaction field and the thrown value's message when that message is non-empty, and
  with status 500 and the body "error creating transaction" only when the thrown value
  has no message or an empty one.  The two validation failures are thrown with their
  messages, "Invalid location id" and "You must visit each location in order!", and so
  are answered with status 200; a failed blockhash fetch is passed on as it is, and is
  answered by the same rule.
\<close>

theorem post_error_surface:
  assumes "http_method req = Some ''POST''"
    and "req_body req = Body (Some a)" "a \<noteq> []"
    and "query_reference req = Some r" "truthy_param (Some r)"
    and "query_id req = Some i" "truthy_param (Some i)"
  shows "(snd (post_try env a r i) = Inl e \<longrightarrow>
            snd (handler env req) =
              (if truthy (message e)
               then Responded \<lparr>status = 200, body = TransactionBody '''' (the (message e))\<rparr>
               else Responded \<lparr>status = 500, body = ErrorBody ''error creating transaction''\<rparr>))
       \<and> (newPublicKey env (Str a) = Inr account \<and> newPublicKey env r = Inr reference \<longrightarrow>
            (locationAtIndex (locations env) (toNumber env (toString i)) = None \<longrightarrow>
               snd (handler env req) =
                 Responded \<lparr>status = 200, body = TransactionBody '''' ''Invalid location id''\<rparr>)
          \<and> (locationAtIndex (locations env) (toNumber env (toString i)) = Some loc
               \<and> \<not> verifyCorrectLocation (locations env) (snd (fetchUserState env account)) loc \<longrightarrow>
               snd (handler env req) =
                 Responded \<lparr>status = 200,
                  body = TransactionBody '''' ''You must visit each location in order!''\<rparr>)
          \<and> (locationAtIndex (locations env) (toNumber env (toString i)) = Some loc
               \<and> verifyCorrectLocation (locations env) (snd (fetchUserState env account)) loc
               \<and> getLatestBlockhash env = Inl e \<longrightarrow>
               snd (post_try env a r i) = Inl e))"
proof (intro conjI impI)
  assume "snd (post_try env a r i) = Inl e"
  then show "snd (handler env req) =
              (if truthy (message e)
               then Responded \<lparr>status = 200, body = TransactionBody '''' (the (message e))\<rparr>
               else Responded \<lparr>status = 500, body = ErrorBody ''error creating transaction''\<rparr>)"
    by (rule handler_post_thrown [OF assms])
next
  assume parsed: "newPublicKey env (Str a) = Inr account \<and> newPublicKey env r = Inr reference"
    and "locationAtIndex (locations env) (toNumber env (toString i)) = None"
  then have "snd (post_try env a r i) = Inl (Thrown (Some ''Invalid location id''))"
    by (simp add: post_try_parsed buildTransaction_unresolved)
  from handler_post_thrown [OF assms this]
  show "snd (handler env req) = Responded \<lparr>status = 200, body = TransactionBody '''' ''Invalid location id''\<rparr>"
    by (simp add: truthy_def)
next
  assume parsed: "newPublicKey env (Str a) = Inr account \<and> newPublicKey env r = Inr reference"
    and "locationAtIndex (locations env) (toNumber env (toString i)) = Some loc
         \<and> \<not> verifyCorrectLocation (locations env) (snd (fetchUserState env account)) loc"
  then have "snd (post_try env a r i) = Inl (Thrown (Some ''You must visit each location in order!''))"
    by (simp add: post_try_parsed buildTransaction_out_of_order)
  from handler_post_thrown [OF assms this]
  show "snd (handler env req) =
          Responded \<lparr>status = 200, body = TransactionBody '''' ''You must visit each location in order!''\<rparr>"
    by (simp add: truthy_def)
next
  assume parsed: "newPublicKey env (Str a) = Inr account \<and> newPublicKey env r = Inr reference"
    and "locationAtIndex (locations env) (toNumber env (toString i)) = Some loc
         \<and> verifyCorrectLocation (locations env) (snd (fetchUserState env account)) loc
         \<and> getLatestBlockhash env = Inl e"
  then show "snd (post_try env a r i) = Inl e"
    by (simp add: post_try_parsed buildTransaction_in_order)
qed

theorem post_error_surface_witness:
  "snd (handler demo_env (demo_request ''99'')) =
     Responded \<lparr>status = 200, body = TransactionBody '''' ''Invalid location id''\<rparr>
   \<and> snd (handler demo_env (demo_request ''2'')) =
     Responded \<lparr>status = 200, body = TransactionBody '''' ''You must visit each location in order!''\<rparr>
   \<and> snd (handler demo_env_offline (demo_request ''1'')) =
     Responded \<lparr>status = 200, body = TransactionBody '''' ''failed to get recent blockhash''\<rparr>
   \<and> snd (handler (demo_env\<lparr>getLatestBlockhash := Inl (Thrown None)\<rparr>) (demo_request ''1'')) =
     Responded \<lparr>status = 500, body = ErrorBody ''error creating transaction''\<rparr>"
proof -
  have req: "http_method (demo_request j) = Some ''POST''"
    "req_body (demo_request j) = Body (Some ''Alice'')" "''Alice'' \<noteq> []"
    "query_reference (demo_request j) = Some (Str ''Ref'')" "truthy_param (Some (Str ''Ref''))"
    "query_id (demo_request j) = Some (Str j)" for j
    by (simp_all add: demo_request_def truthy_param_def)
  have nonempty: "truthy_param (Some (Str ''99''))" "truthy_param (Some (Str ''2''))"
    "truthy_param (Some (Str ''1''))"
    by (simp_all add: truthy_param_def)
  have "snd (handler demo_env (demo_request ''99'')) =
     Responded \<lparr>status = 200, body = TransactionBody '''' ''Invalid location id''\<rparr>"
    using post_error_surface [OF req nonempty(1), of demo_env e "PublicKey ''Alice''"
        "PublicKey ''Ref''" loc]
    by (simp add: demo_env_def demo_locations_def locationAtIndex_def)
  moreover have "snd (handler demo_env (demo_request ''2'')) =
     Responded \<lparr>status = 200, body = TransactionBody '''' ''You must visit each location in order!''\<rparr>"
    using post_error_surface [OF req nonempty(2), of demo_env e "PublicKey ''Alice''"
        "PublicKey ''Ref''" "\<lparr>index = 2, key = PublicKey ''K2''\<rparr>"]
    by (simp add: demo_env_def demo_locations_def locationAtIndex_def snd_fetchUserState
          verifyCorrectLocation_def)
  moreover have "snd (handler demo_env_offline (demo_request ''1'')) =
     Responded \<lparr>status = 200, body = TransactionBody '''' ''failed to get recent blockhash''\<rparr>"
    using post_error_surface [OF req nonempty(3), of demo_env_offline
        "Thrown (Some ''failed to get recent blockhash'')" "PublicKey ''Alice''"
        "PublicKey ''Ref''" "\<lparr>index = 1, key = PublicKey ''K1''\<rparr>"]
    by (simp add: demo_env_offline_def demo_env_def demo_locations_def locationAtIndex_def
          snd_fetchUserState verifyCorrectLocation_def truthy_def)
  moreover have "snd (handler (demo_env\<lparr>getLatestBlockhash := Inl (Thrown None)\<rparr>)
                        (demo_request ''1'')) =
     Responded \<lparr>status = 500, body = ErrorBody ''error creating transaction''\<rparr>"
    using post_error_surface [OF req nonempty(3),
        of "demo_env\<lparr>getLatestBlockhash := Inl (Thrown None)\<rparr>" "Thrown None"
        "PublicKey ''Alice''" "PublicKey ''Ref''" "\<lparr>index = 1, key = PublicKey ''K1''\<rparr>"]
    by (simp add: demo_env_def demo_locations_def locationAtIndex_def
          snd_fetchUserState verifyCorrectLocation_def truthy_def)
  ultimately show ?thesis by simp
qed

section \<open>The transaction of a successful request\<close>

text \<open>
  Claim C6.  Whenever the \<open>try\<close> block of a POST request completes, the answer is status
  200 and its transaction field is the base64 text of the bytes that serialisation, asked
  not to require all signatures, returned for a transaction whose fee payer is the
  caller's parsed account and which has been signed by the event organizer's key and by
  no other key.
\<close>

theorem successful_post_is_partially_signed_base64:
  assumes "http_method req = Some ''POST''"
    and "req_body req = Body (Some a)" "a \<noteq> []"
    and "query_reference req = Some r" "truthy_param (Some r)"
    and "query_id req = Some i" "truthy_param (Some i)"
    and "snd (post_try env a r i) = Inr s"
  shows "snd (handler env req) =
           Responded \<lparr>status = 200,
            body = TransactionBody s (''You've found location '' @ toString i @ ''!'')\<rparr>
       \<and> (\<exists>tx bytes.
             s = base64 bytes
           \<and> serialize env \<lparr>requireAllSignatures = False\<rparr> tx = Inr bytes
           \<and> newPublicKey env (Str a) = Inr (feePayer tx)
           \<and> signatures tx = [publicKey (eventOrganizer env)])"
proof
  show "snd (handler env req) =
           Responded \<lparr>status = 200,
            body = TransactionBody s (''You've found location '' @ toString i @ ''!'')\<rparr>"
    by (rule handler_post_returned [OF assms])
next
  from assms(8) obtain account reference where
    parsed: "newPublicKey env (Str a) = Inr account" "newPublicKey env r = Inr reference"
    by (auto simp: post_try_def split: sum.splits)
  with assms(8) have "snd (buildTransaction env account reference (toString i)) = Inr s"
    by (simp add: post_try_parsed)
  from buildTransaction_returned [OF this] obtain tx bytes where
    "serialize env \<lparr>requireAllSignatures = False\<rparr> tx = Inr bytes" "s = base64 bytes"
    "feePayer tx = account" "signatures tx = [publicKey (eventOrganizer env)]"
    by fastforce
  with parsed(1) show "\<exists>tx bytes.
             s = base64 bytes
           \<and> serialize env \<lparr>requireAllSignatures = False\<rparr> tx = Inr bytes
           \<and> newPublicKey env (Str a) = Inr (feePayer tx)
           \<and> signatures tx = [publicKey (eventOrganizer env)]"
    by blast
qed

theorem successful_post_is_partially_signed_base64_witness:
  "snd (post_try demo_env ''Alice'' (Str ''Ref'') (Str ''1'')) = Inr ''AgE=''
   \<and> snd (handler demo_env (demo_request ''1'')) =
       Responded \<lparr>status = 200, body = TransactionBody ''AgE='' ''You've found location 1!''\<rparr>
   \<and> (\<exists>tx bytes.
         ''AgE='' = base64 bytes
       \<and> serialize demo_env \<lparr>requireAllSignatures = False\<rparr> tx = Inr bytes
       \<and> newPublicKey demo_env (Str ''Alice'') = Inr (feePayer tx)
       \<and> signatures tx = [publicKey (eventOrganizer demo_env)])"
proof -
  have run: "snd (post_try demo_env ''Alice'' (Str ''Ref'') (Str ''1'')) = Inr ''AgE=''"
    by code_simp
  have req: "http_method (demo_request ''1'') = Some ''POST''"
    "req_body (demo_request ''1'') = Body (Some ''Alice'')" "''Alice'' \<noteq> []"
    "query_reference (demo_request ''1'') = Some (Str ''Ref'')" "truthy_param (Some (Str ''Ref''))"
    "query_id (demo_request ''1'') = Some (Str ''1'')" "truthy_param (Some (Str ''1''))"
    by (simp_all add: demo_request_def truthy_param_def)
  from successful_post_is_partially_signed_base64 [OF req run] run show ?thesis
    by simp
qed

text \<open>
  Claim C7.  The check-in instruction that \<open>createCheckInInstruction\<close> returns has, as the
  last entry of its key list, the caller's reference key marked as not signing and not
  writable, after the keys the program's builder resolved.  Whenever the \<open>try\<close> block of
  a POST request completes, the transaction that was serialised ends with a check-in
  instruction whose key list ends with the parsed reference, so marked.
\<close>

theorem reference_key_is_appended_read_only:
  "(createCheckInInstruction env account reference loc = Inr ix \<longrightarrow>
      (\<exists>ks. buildInstruction env (CheckIn (gameId env) (key loc))
               [(''user'', account), (''eventOrganizer'', publicKey (eventOrganizer env))] = Inr ks
          \<and> call ix = CheckIn (gameId env) (key loc)
          \<and> keys ix = ks @ [\<lparr>pubkey = reference, isSigner = False, isWritable = False\<rparr>]))
   \<and> (snd (post_try env a r i) = Inr s \<longrightarrow>
      (\<exists>tx bytes referenceKey ks k.
            s = base64 bytes
          \<and> serialize env \<lparr>requireAllSignatures = False\<rparr> tx = Inr bytes
          \<and> newPublicKey env r = Inr referenceKey
          \<and> instructions tx \<noteq> []
          \<and> call (last (instructions tx)) = CheckIn (gameId env) k
          \<and> keys (last (instructions tx)) =
              ks @ [\<lparr>pubkey = referenceKey, isSigner = False, isWritable = False\<rparr>]))"
proof (intro conjI impI)
  assume "createCheckInInstruction env account reference loc = Inr ix"
  then show "\<exists>ks. buildInstruction env (CheckIn (gameId env) (key loc))
               [(''user'', account), (''eventOrganizer'', publicKey (eventOrganizer env))] = Inr ks
          \<and> call ix = CheckIn (gameId env) (key loc)
          \<and> keys ix = ks @ [\<lparr>pubkey = reference, isSigner = False, isWritable = False\<rparr>]"
    by (auto simp: createCheckInInstruction_def split: sum.splits)
next
  assume run: "snd (post_try env a r i) = Inr s"
  then obtain accountKey referenceKey where
    parsed: "newPublicKey env (Str a) = Inr accountKey" "newPublicKey env r = Inr referenceKey"
    by (auto simp: post_try_def split: sum.splits)
  with run have "snd (buildTransaction env accountKey referenceKey (toString i)) = Inr s"
    by (simp add: post_try_parsed)
  from buildTransaction_returned [OF this] obtain tx bytes ks k where
    "serialize env \<lparr>requireAllSignatures = False\<rparr> tx = Inr bytes" "s = base64 bytes"
    "instructions tx \<noteq> []" "call (last (instructions tx)) = CheckIn (gameId env) k"
    "keys (last (instructions tx)) =
       ks @ [\<lparr>pubkey = referenceKey, isSigner = False, isWritable = False\<rparr>]"
    by fastforce
  with parsed(2) show "\<exists>tx bytes referenceKey ks k.
            s = base64 bytes
          \<and> serialize env \<lparr>requireAllSignatures = False\<rparr> tx = Inr bytes
          \<and> newPublicKey env r = Inr referenceKey
          \<and> instructions tx \<noteq> []
          \<and> call (last (instructions tx)) = CheckIn (gameId env) k
          \<and> keys (last (instructions tx)) =
              ks @ [\<lparr>pubkey = referenceKey, isSigner = False, isWritable = False\<rparr>]"
    by blast
qed

theorem reference_key_is_appended_read_only_witness:
  "createCheckInInstruction demo_env (PublicKey ''Alice'') (PublicKey ''Ref'')
       \<lparr>index = 1, key = PublicKey ''K1''\<rparr> =
     Inr \<lparr>call = CheckIn (PublicKey ''Game'') (PublicKey ''K1''),
          keys = [\<lparr>pubkey = PublicKey ''Alice'', isSigner = True, isWritable = True\<rparr>,
                  \<lparr>pubkey = PublicKey ''Organizer'', isSigner = True, isWritable = True\<rparr>,
                  \<lparr>pubkey = PublicKey ''Ref'', isSigner = False, isWritable = False\<rparr>]\<rparr>
   \<and> (\<exists>ks. keys \<lparr>call = CheckIn (PublicKey ''Game'') (PublicKey ''K1''),
                   keys = [\<lparr>pubkey = PublicKey ''Alice'', isSigner = True, isWritable = True\<rparr>,
                      \<lparr>pubkey = PublicKey ''Organizer'', isSigner = True, isWritable = True\<rparr>,
                      \<lparr>pubkey = PublicKey ''Ref'', isSigner = False, isWritable = False\<rparr>]\<rparr> =
              ks @ [\<lparr>pubkey = PublicKey ''Ref'', isSigner = False, isWritable = False\<rparr>])
   \<and> snd (post_try demo_env_visited ''Alice'' (Str ''Ref'') (Str ''2'')) = Inr ''AQE=''
   \<and> (\<exists>tx bytes ks k.
         ''AQE='' = base64 bytes
       \<and> serialize demo_env_visited \<lparr>requireAllSignatures = False\<rparr> tx = Inr bytes
       \<and> instructions tx \<noteq> []
       \<and> call (last (instructions tx)) = CheckIn (PublicKey ''Game'') k
       \<and> keys (last (instructions tx)) =
           ks @ [\<lparr>pubkey = PublicKey ''Ref'', isSigner = False, isWritable = False\<rparr>])"
proof -
  have built: "createCheckInInstruction demo_env (PublicKey ''Alice'') (PublicKey ''Ref'')
       \<lparr>index = 1, key = PublicKey ''K1''\<rparr> =
     Inr \<lparr>call = CheckIn (PublicKey ''Game'') (PublicKey ''K1''),
          keys = [\<lparr>pubkey = PublicKey ''Alice'', isSigner = True, isWritable = True\<rparr>,
                  \<lparr>pubkey = PublicKey ''Organizer'', isSigner = True, isWritable = True\<rparr>,
                  \<lparr>pubkey = PublicKey ''Ref'', isSigner = False, isWritable = False\<rparr>]\<rparr>"
    by (simp add: createCheckInInstruction_def demo_env_def)
  have run: "snd (post_try demo_env_visited ''Alice'' (Str ''Ref'') (Str ''2'')) = Inr ''AQE=''"
    by code_simp
  have parsed: "newPublicKey demo_env_visited (Str ''Ref'') = Inr k \<longleftrightarrow> k = PublicKey ''Ref''"
    "gameId demo_env_visited = PublicKey ''Game''" for k
    by (auto simp: demo_env_visited_def demo_env_def)
  from reference_key_is_appended_read_only
         [of demo_env "PublicKey ''Alice''" "PublicKey ''Ref''" "\<lparr>index = 1, key = PublicKey ''K1''\<rparr>"
             "\<lparr>call = CheckIn (PublicKey ''Game'') (PublicKey ''K1''),
               keys = [\<lparr>pubkey = PublicKey ''Alice'', isSigner = True, isWritable = True\<rparr>,
                  \<lparr>pubkey = PublicKey ''Organizer'', isSigner = True, isWritable = True\<rparr>,
                  \<lparr>pubkey = PublicKey ''Ref'', isSigner = False, isWritable = False\<rparr>]\<rparr>"]
       built
  have first: "\<exists>ks. keys \<lparr>call = CheckIn (PublicKey ''Game'') (PublicKey ''K1''),
                   keys = [\<lparr>pubkey = PublicKey ''Alice'', isSigner = True, isWritable = True\<rparr>,
                      \<lparr>pubkey = PublicKey ''Organizer'', isSigner = True, isWritable = True\<rparr>,
                      \<lparr>pubkey = PublicKey ''Ref'', isSigner = False, isWritable = False\<rparr>]\<rparr> =
              ks @ [\<lparr>pubkey = PublicKey ''Ref'', isSigner = False, isWritable = False\<rparr>]"
    by blast
  from reference_key_is_appended_read_only
         [of demo_env_visited _ _ _ _ "''Alice''" "Str ''Ref''" "Str ''2''" "''AQE=''"] run
  have second: "\<exists>tx bytes ks k.
         ''AQE='' = base64 bytes
       \<and> serialize demo_env_visited \<lparr>requireAllSignatures = False\<rparr> tx = Inr bytes
       \<and> instructions tx \<noteq> []
       \<and> call (last (instructions tx)) = CheckIn (PublicKey ''Game'') k
       \<and> keys (last (instructions tx)) =
           ks @ [\<lparr>pubkey = PublicKey ''Ref'', isSigner = False, isWritable = False\<rparr>]"
    unfolding parsed by blast
  from built first run second show ?thesis by blast
qed

section \<open>Visiting order\<close>

text \<open>
  Claim C1.  Take a POST request with the three parameters present and both keys parsing,
  from a user for whom \<open>fetchUserState\<close> finds no state, and whose id resolves to a
  registered location \<open>loc\<close>; let the blockhash fetch, the two instruction builders, the
  organizer's signature and the serialisation return normally.  Then the \<open>try\<close> block
  completes if and only if \<open>loc\<close> has index 1.  In that case the answer carries the base64
  text of the serialised transaction \<open>tx\<close>, whose instructions are the initialise
  instruction followed by the check-in instruction; for every other registered location
  the answer is the message "You must visit each location in order!" with an empty
  transaction field, and no blockhash has been requested.
\<close>

theorem first_visit_only_at_location_one:
  assumes "http_method req = Some ''POST''"
    and "req_body req = Body (Some a)" "a \<noteq> []"
    and "query_reference req = Some r" "truthy_param (Some r)"
    and "query_id req = Some i" "truthy_param (Some i)"
    and parsed: "newPublicKey env (Str a) = Inr account" "newPublicKey env r = Inr reference"
    and no_state: "snd (fetchUserState env account) = None"
    and registered: "locationAtIndex (locations env) (toNumber env (toString i)) = Some loc"
    and blockhash: "getLatestBlockhash env = Inr (blockhash, height)"
    and init: "buildInstruction env (Initialize (gameId env)) [(''user'', account)] = Inr ik"
    and checkin: "buildInstruction env (CheckIn (gameId env) (key loc))
            [(''user'', account), (''eventOrganizer'', publicKey (eventOrganizer env))] = Inr ck"
    and tx: "tx = \<lparr>feePayer = account, recentBlockhash = blockhash,
                   lastValidBlockHeight = height,
                   instructions =
                     [\<lparr>call = Initialize (gameId env), keys = ik\<rparr>,
                      \<lparr>call = CheckIn (gameId env) (key loc),
                       keys = ck @ [\<lparr>pubkey = reference, isSigner = False,
                                     isWritable = False\<rparr>]\<rparr>],
                   signatures = []\<rparr>"
    and signed: "partialSignThrows env tx (eventOrganizer env) = None"
    and serialized: "serialize env \<lparr>requireAllSignatures = False\<rparr>
                       (tx\<lparr>signatures := [publicKey (eventOrganizer env)]\<rparr>) = Inr bytes"
  shows "((\<exists>s. snd (post_try env a r i) = Inr s) \<longleftrightarrow> index loc = 1)
       \<and> (index loc = 1 \<longrightarrow>
            snd (handler env req) =
              Responded \<lparr>status = 200,
               body = TransactionBody (base64 bytes)
                        (''You've found location '' @ toString i @ ''!'')\<rparr>)
       \<and> (index loc \<noteq> 1 \<longrightarrow>
            handler env req =
              (fst (fetchUserState env account),
               Responded \<lparr>status = 200,
                body = TransactionBody '''' ''You must visit each location in order!''\<rparr>))"
proof (cases "index loc = 1")
  case True
  then have ok: "verifyCorrectLocation (locations env) (snd (fetchUserState env account)) loc"
    by (simp add: no_state verifyCorrectLocation_def)
  have "finishTransaction env account reference loc None
          \<lparr>feePayer = account, recentBlockhash = blockhash, lastValidBlockHeight = height,
           instructions = [], signatures = []\<rparr> = Inr (base64 bytes)"
    using init checkin signed serialized
    by (simp add: finishTransaction_def createInitUserInstruction_def
          createCheckInInstruction_def partialSign_def add_def tx)
  then have run: "snd (post_try env a r i) = Inr (base64 bytes)"
    by (simp add: post_try_parsed [OF parsed] buildTransaction_in_order [OF registered ok]
          blockhash no_state)
  from handler_post_returned [OF assms(1-7) run] run True show ?thesis
    by simp
next
  case False
  then have bad: "\<not> verifyCorrectLocation (locations env) (snd (fetchUserState env account)) loc"
    by (simp add: no_state verifyCorrectLocation_def)
  have run: "post_try env a r i =
               (fst (fetchUserState env account),
                Inl (Thrown (Some ''You must visit each location in order!'')))"
    by (simp add: post_try_parsed [OF parsed] buildTransaction_out_of_order [OF registered bad])
  with False show ?thesis
    by (simp add: handler_post_present [OF assms(1-7)] truthy_def)
qed

theorem first_visit_only_at_location_one_witness:
  "snd (fetchUserState demo_env (PublicKey ''Alice'')) = None
   \<and> snd (handler demo_env (demo_request ''1'')) =
       Responded \<lparr>status = 200, body = TransactionBody ''AgE='' ''You've found location 1!''\<rparr>
   \<and> handler demo_env (demo_request ''2'') =
       ([FetchUserState (PublicKey ''GameAlice'')],
        Responded \<lparr>status = 200, body = TransactionBody '''' ''You must visit each location in order!''\<rparr>)
   \<and> (\<exists>s. snd (post_try demo_env ''Alice'' (Str ''Ref'') (Str ''1'')) = Inr s)
   \<and> \<not> (\<exists>s. snd (post_try demo_env ''Alice'' (Str ''Ref'') (Str ''2'')) = Inr s)"
proof -
  have req: "http_method (demo_request j) = Some ''POST''"
    "req_body (demo_request j) = Body (Some ''Alice'')" "''Alice'' \<noteq> []"
    "query_reference (demo_request j) = Some (Str ''Ref'')" "truthy_param (Some (Str ''Ref''))"
    "query_id (demo_request j) = Some (Str j)" for j
    by (simp_all add: demo_request_def truthy_param_def)
  have parsed: "newPublicKey demo_env (Str ''Alice'') = Inr (PublicKey ''Alice'')"
    "newPublicKey demo_env (Str ''Ref'') = Inr (PublicKey ''Ref'')"
    by (simp_all add: demo_env_def)
  have no_state: "snd (fetchUserState demo_env (PublicKey ''Alice'')) = None"
    by (simp add: snd_fetchUserState demo_env_def)
  have blockhash: "getLatestBlockhash demo_env = Inr (''Blockhash'', 100)"
    by (simp add: demo_env_def)
  have init: "buildInstruction demo_env (Initialize (gameId demo_env))
                [(''user'', PublicKey ''Alice'')] =
              Inr [\<lparr>pubkey = PublicKey ''Alice'', isSigner = True, isWritable = True\<rparr>]"
    by (simp add: demo_env_def)
  have checkin: "buildInstruction demo_env (CheckIn (gameId demo_env) (key l))
                [(''user'', PublicKey ''Alice''),
                 (''eventOrganizer'', publicKey (eventOrganizer demo_env))] =
              Inr [\<lparr>pubkey = PublicKey ''Alice'', isSigner = True, isWritable = True\<rparr>,
                   \<lparr>pubkey = PublicKey ''Organizer'', isSigner = True, isWritable = True\<rparr>]" for l
    by (simp add: demo_env_def)
  have signed: "partialSignThrows demo_env t (eventOrganizer demo_env) = None" for t
    by (simp add: demo_env_def)
  have one: "locationAtIndex (locations demo_env) (toNumber demo_env (toString (Str ''1''))) =
               Some \<lparr>index = 1, key = PublicKey ''K1''\<rparr>"
    and two: "locationAtIndex (locations demo_env) (toNumber demo_env (toString (Str ''2''))) =
               Some \<lparr>index = 2, key = PublicKey ''K2''\<rparr>"
    by (simp_all add: demo_env_def demo_locations_def locationAtIndex_def)
  have serialized: "serialize demo_env \<lparr>requireAllSignatures = False\<rparr>
      (\<lparr>feePayer = PublicKey ''Alice'', recentBlockhash = ''Blockhash'',
        lastValidBlockHeight = 100,
        instructions =
          [\<lparr>call = Initialize (gameId demo_env),
            keys = [\<lparr>pubkey = PublicKey ''Alice'', isSigner = True, isWritable = True\<rparr>]\<rparr>,
           \<lparr>call = CheckIn (gameId demo_env) (key l),
            keys = [\<lparr>pubkey = PublicKey ''Alice'', isSigner = True, isWritable = True\<rparr>,
                    \<lparr>pubkey = PublicKey ''Organizer'', isSigner = True, isWritable = True\<rparr>] @
                   [\<lparr>pubkey = PublicKey ''Ref'', isSigner = False, isWritable = False\<rparr>]\<rparr>],
        signatures = []\<rparr>\<lparr>signatures := [publicKey (eventOrganizer demo_env)]\<rparr>) = Inr [2, 1]" for l
    by (simp add: demo_env_def)
  have b64: "base64 [2, 1] = ''AgE=''"
    by code_simp
  have nonempty: "truthy_param (Some (Str ''1''))" "truthy_param (Some (Str ''2''))"
    by (simp_all add: truthy_param_def)
  from first_visit_only_at_location_one
         [OF req nonempty(1) parsed no_state one blockhash init checkin refl signed serialized]
       first_visit_only_at_location_one
         [OF req nonempty(2) parsed no_state two blockhash init checkin refl signed serialized]
       no_state b64
  show ?thesis
    by (simp add: snd_fetchUserState fst_fetchUserState demo_env_def)
qed

text \<open>
  Claim C2.  Take a POST request with the three parameters present and both keys parsing,
  from a user whose state account exists and whose \<open>lastLocation\<close> is the key of the
  registered location \<open>lastLoc\<close>, of index N, and whose id resolves to a registered
  location \<open>loc\<close>; let the blockhash fetch, the check-in builder, the organizer's signature
  and the serialisation return normally.  Then the \<open>try\<close> block completes if and only if
  \<open>loc\<close> has index N + 1.  In that case the answer carries the base64 text of the
  serialised transaction \<open>tx\<close>, whose only instruction is the check-in instruction; when
  the index of \<open>loc\<close> is at most N or above N + 1 the answer is the message "You must
  visit each location in order!" with an empty transaction field.
\<close>

theorem next_visit_only_at_following_location:
  assumes "http_method req = Some ''POST''"
    and "req_body req = Body (Some a)" "a \<noteq> []"
    and "query_reference req = Some r" "truthy_param (Some r)"
    and "query_id req = Some i" "truthy_param (Some i)"
    and parsed: "newPublicKey env (Str a) = Inr account" "newPublicKey env r = Inr reference"
    and state: "snd (fetchUserState env account) = Some st"
    and last: "find (\<lambda>l. toBase58 (key l) = toBase58 (lastLocation st)) (locations env) =
                 Some lastLoc"
    and registered: "locationAtIndex (locations env) (toNumber env (toString i)) = Some loc"
    and blockhash: "getLatestBlockhash env = Inr (blockhash, height)"
    and checkin: "buildInstruction env (CheckIn (gameId env) (key loc))
            [(''user'', account), (''eventOrganizer'', publicKey (eventOrganizer env))] = Inr ck"
    and tx: "tx = \<lparr>feePayer = account, recentBlockhash = blockhash,
                   lastValidBlockHeight = height,
                   instructions =
                     [\<lparr>call = CheckIn (gameId env) (key loc),
                       keys = ck @ [\<lparr>pubkey = reference, isSigner = False,
                                     isWritable = False\<rparr>]\<rparr>],
                   signatures = []\<rparr>"
    and signed: "partialSignThrows env tx (eventOrganizer env) = None"
    and serialized: "serialize env \<lparr>requireAllSignatures = False\<rparr>
                       (tx\<lparr>signatures := [publicKey (eventOrganizer env)]\<rparr>) = Inr bytes"
  shows "((\<exists>s. snd (post_try env a r i) = Inr s) \<longleftrightarrow> index loc = index lastLoc + 1)
       \<and> (index loc = index lastLoc + 1 \<longrightarrow>
            snd (handler env req) =
              Responded \<lparr>status = 200,
               body = TransactionBody (base64 bytes)
                        (''You've found location '' @ toString i @ ''!'')\<rparr>)
       \<and> (index loc \<le> index lastLoc \<or> index loc > index lastLoc + 1 \<longrightarrow>
            handler env req =
              (fst (fetchUserState env account),
               Responded \<lparr>status = 200,
                body = TransactionBody '''' ''You must visit each location in order!''\<rparr>))"
proof (cases "index loc = index lastLoc + 1")
  case True
  then have ok: "verifyCorrectLocation (locations env) (snd (fetchUserState env account)) loc"
    by (simp add: state last verifyCorrectLocation_def)
  have "finishTransaction env account reference loc (Some st)
          \<lparr>feePayer = account, recentBlockhash = blockhash, lastValidBlockHeight = height,
           instructions = [], signatures = []\<rparr> = Inr (base64 bytes)"
    using checkin signed serialized
    by (simp add: finishTransaction_def createCheckInInstruction_def partialSign_def add_def tx)
  then have run: "snd (post_try env a r i) = Inr (base64 bytes)"
    by (simp add: post_try_parsed [OF parsed] buildTransaction_in_order [OF registered ok]
          blockhash state)
  from handler_post_returned [OF assms(1-7) run] run True show ?thesis
    by simp
next
  case False
  then have bad: "\<not> verifyCorrectLocation (locations env) (snd (fetchUserState env account)) loc"
    by (simp add: state last verifyCorrectLocation_def)
  have run: "post_try env a r i =
               (fst (fetchUserState env account),
                Inl (Thrown (Some ''You must visit each location in order!'')))"
    by (simp add: post_try_parsed [OF parsed] buildTransaction_out_of_order [OF registered bad])
  with False show ?thesis
    by (simp add: handler_post_present [OF assms(1-7)] truthy_def)
qed

theorem next_visit_only_at_following_location_witness:
  "snd (fetchUserState demo_env_visited (PublicKey ''Alice'')) =
     Some \<lparr>user = PublicKey ''Alice'', stateGameId = PublicKey ''Game'',
           lastLocation = PublicKey ''K1''\<rparr>
   \<and> snd (handler demo_env_visited (demo_request ''2'')) =
       Responded \<lparr>status = 200, body = TransactionBody ''AQE='' ''You've found location 2!''\<rparr>
   \<and> handler demo_env_visited (demo_request ''1'') =
       ([FetchUserState (PublicKey ''GameAlice'')],
        Responded \<lparr>status = 200, body = TransactionBody '''' ''You must visit each location in order!''\<rparr>)
   \<and> handler demo_env_visited (demo_request ''3'') =
       ([FetchUserState (PublicKey ''GameAlice'')],
        Responded \<lparr>status = 200, body = TransactionBody '''' ''You must visit each location in order!''\<rparr>)
   \<and> (\<exists>s. snd (post_try demo_env_visited ''Alice'' (Str ''Ref'') (Str ''2'')) = Inr s)
   \<and> \<not> (\<exists>s. snd (post_try demo_env_visited ''Alice'' (Str ''Ref'') (Str ''3'')) = Inr s)"
proof -
  have req: "http_method (demo_request j) = Some ''POST''"
    "req_body (demo_request j) = Body (Some ''Alice'')" "''Alice'' \<noteq> []"
    "query_reference (demo_request j) = Some (Str ''Ref'')" "truthy_param (Some (Str ''Ref''))"
    "query_id (demo_request j) = Some (Str j)" for j
    by (simp_all add: demo_request_def truthy_param_def)
  have parsed: "newPublicKey demo_env_visited (Str ''Alice'') = Inr (PublicKey ''Alice'')"
    "newPublicKey demo_env_visited (Str ''Ref'') = Inr (PublicKey ''Ref'')"
    by (simp_all add: demo_env_visited_def demo_env_def)
  have state: "snd (fetchUserState demo_env_visited (PublicKey ''Alice'')) =
     Some \<lparr>user = PublicKey ''Alice'', stateGameId = PublicKey ''Game'',
           lastLocation = PublicKey ''K1''\<rparr>"
    by (simp add: snd_fetchUserState demo_env_visited_def demo_env_def)
  have last: "find (\<lambda>l. toBase58 (key l) =
                   toBase58 (lastLocation \<lparr>user = PublicKey ''Alice'',
                     stateGameId = PublicKey ''Game'', lastLocation = PublicKey ''K1''\<rparr>))
                (locations demo_env_visited) = Some \<lparr>index = 1, key = PublicKey ''K1''\<rparr>"
    by (simp add: demo_env_visited_def demo_env_def demo_locations_def)
  have blockhash: "getLatestBlockhash demo_env_visited = Inr (''Blockhash'', 100)"
    by (simp add: demo_env_visited_def demo_env_def)
  have checkin: "buildInstruction demo_env_visited (CheckIn (gameId demo_env_visited) (key l))
                [(''user'', PublicKey ''Alice''),
                 (''eventOrganizer'', publicKey (eventOrganizer demo_env_visited))] =
              Inr [\<lparr>pubkey = PublicKey ''Alice'', isSigner = True, isWritable = True\<rparr>,
                   \<lparr>pubkey = PublicKey ''Organizer'', isSigner = True, isWritable = True\<rparr>]" for l
    by (simp add: demo_env_visited_def demo_env_def)
  have signed: "partialSignThrows demo_env_visited t (eventOrganizer demo_env_visited) = None" for t
    by (simp add: demo_env_visited_def demo_env_def)
  have one: "locationAtIndex (locations demo_env_visited)
               (toNumber demo_env_visited (toString (Str ''1''))) =
               Some \<lparr>index = 1, key = PublicKey ''K1''\<rparr>"
    and two: "locationAtIndex (locations demo_env_visited)
               (toNumber demo_env_visited (toString (Str ''2''))) =
               Some \<lparr>index = 2, key = PublicKey ''K2''\<rparr>"
    and three: "locationAtIndex (locations demo_env_visited)
               (toNumber demo_env_visited (toString (Str ''3''))) =
               Some \<lparr>index = 3, key = PublicKey ''K3''\<rparr>"
    by (simp_all add: demo_env_visited_def demo_env_def demo_locations_def locationAtIndex_def)
  have serialized: "serialize demo_env_visited \<lparr>requireAllSignatures = False\<rparr>
      (\<lparr>feePayer = PublicKey ''Alice'', recentBlockhash = ''Blockhash'',
        lastValidBlockHeight = 100,
        instructions =
          [\<lparr>call = CheckIn (gameId demo_env_visited) (key l),
            keys = [\<lparr>pubkey = PublicKey ''Alice'', isSigner = True, isWritable = True\<rparr>,
                    \<lparr>pubkey = PublicKey ''Organizer'', isSigner = True, isWritable = True\<rparr>] @
                   [\<lparr>pubkey = PublicKey ''Ref'', isSigner = False, isWritable = False\<rparr>]\<rparr>],
        signatures = []\<rparr>\<lparr>signatures := [publicKey (eventOrganizer demo_env_visited)]\<rparr>) =
      Inr [1, 1]" for l
    by (simp add: demo_env_visited_def demo_env_def)
  have b64: "base64 [1, 1] = ''AQE=''"
    by code_simp
  have nonempty: "truthy_param (Some (Str ''1''))" "truthy_param (Some (Str ''2''))"
    "truthy_param (Some (Str ''3''))"
    by (simp_all add: truthy_param_def)
  from next_visit_only_at_following_location
         [OF req nonempty(2) parsed state last two blockhash checkin refl signed serialized]
       next_visit_only_at_following_location
         [OF req nonempty(1) parsed state last one blockhash checkin refl signed serialized]
       next_visit_only_at_following_location
         [OF req nonempty(3) parsed state last three blockhash checkin refl signed serialized]
       state b64
  show ?thesis
    by (simp add: fst_fetchUserState demo_env_visited_def demo_env_def)
qed

section \<open>A failed read of the state account\<close>

lemma finishTransaction_thrown:
  assumes "finishTransaction env account reference loc st tx0 = Inl x"
  shows "(\<exists>m accs. buildInstruction env m accs = Inl x)
       \<or> (\<exists>tx. partialSignThrows env tx (eventOrganizer env) = Some x)
       \<or> (\<exists>tx. serialize env \<lparr>requireAllSignatures = False\<rparr> tx = Inl x)"
proof (cases "\<exists>m accs. buildInstruction env m accs = Inl x")
  case True
  then show ?thesis by blast
next
  case no_builder: False
  show ?thesis
  proof (cases "\<exists>tx. partialSignThrows env tx (eventOrganizer env) = Some x")
    case True
    then show ?thesis by blast
  next
    case no_signer: False
    from assms no_builder no_signer
    have "\<exists>tx. serialize env \<lparr>requireAllSignatures = False\<rparr> tx = Inl x"
      by (auto simp: finishTransaction_def createInitUserInstruction_def
            createCheckInInstruction_def partialSign_def split: option.splits sum.splits)
    then show ?thesis by blast
  qed
qed

lemma finishTransaction_fetch_update:
  "finishTransaction (env\<lparr>fetch := f\<rparr>) account reference loc st tx0 =
   finishTransaction env account reference loc st tx0"
proof -
  have "createInitUserInstruction (env\<lparr>fetch := f\<rparr>) account =
        createInitUserInstruction env account"
    by (simp add: createInitUserInstruction_def cong: sum.case_cong)
  moreover have "createCheckInInstruction (env\<lparr>fetch := f\<rparr>) account reference loc =
        createCheckInInstruction env account reference loc"
    by (simp add: createCheckInInstruction_def cong: sum.case_cong)
  moreover have "partialSign (env\<lparr>fetch := f\<rparr>) = partialSign env"
    by (simp add: partialSign_def fun_eq_iff)
  ultimately show ?thesis
    by (simp add: finishTransaction_def cong: sum.case_cong option.case_cong)
qed

text \<open>
  Claim C9.  Take a POST request with the three parameters present and both keys parsing,
  and let the read of the user's state account throw, whatever the thrown value \<open>e\<close>.
  Then \<open>fetchUserState\<close> returns no state; the answer is the one the handler gives when
  the read throws any other value \<open>e'\<close> (the error of a missing account, say), so a
  network error is not told apart from an account that does not exist; a registered id
  is checked against index 1: any other index is answered with "You must visit each
  location in order!", index 1 goes on to request a blockhash, and a run that completes
  has serialised a transaction of an initialise and a check-in instruction.  An answer of
  status 500 never comes from the failed read: it occurs only when the blockhash fetch,
  an instruction builder, the signature or the serialisation threw a value without a
  non-empty message.
\<close>

theorem state_fetch_failure_counts_as_no_state:
  assumes "http_method req = Some ''POST''"
    and "req_body req = Body (Some a)" "a \<noteq> []"
    and "query_reference req = Some r" "truthy_param (Some r)"
    and "query_id req = Some i" "truthy_param (Some i)"
    and parsed: "newPublicKey env (Str a) = Inr account" "newPublicKey env r = Inr reference"
    and failed: "fetch env (findProgramAddressSync env [gameId env, account] (programId env)) = Inl e"
  shows "snd (fetchUserState env account) = None
       \<and> handler (env\<lparr>fetch := (\<lambda>pda. Inl e')\<rparr>) req = handler env req
       \<and> (locationAtIndex (locations env) (toNumber env (toString i)) = Some loc \<longrightarrow>
            (index loc \<noteq> 1 \<longrightarrow>
               snd (handler env req) =
                 Responded \<lparr>status = 200,
                  body = TransactionBody '''' ''You must visit each location in order!''\<rparr>)
          \<and> (index loc = 1 \<longrightarrow>
               fst (handler env req) = fst (fetchUserState env account) @ [GetLatestBlockhash]))
       \<and> (snd (post_try env a r i) = Inr s \<longrightarrow>
            (\<exists>tx bytes k.
                s = base64 bytes
              \<and> serialize env \<lparr>requireAllSignatures = False\<rparr> tx = Inr bytes
              \<and> map call (instructions tx) = [Initialize (gameId env), CheckIn (gameId env) k]))
       \<and> ((\<exists>b. snd (handler env req) = Responded \<lparr>status = 500, body = b\<rparr>) \<longrightarrow>
            (\<exists>x. \<not> truthy (message x)
               \<and> (getLatestBlockhash env = Inl x
                  \<or> (\<exists>m accs. buildInstruction env m accs = Inl x)
                  \<or> (\<exists>tx. partialSignThrows env tx (eventOrganizer env) = Some x)
                  \<or> (\<exists>tx. serialize env \<lparr>requireAllSignatures = False\<rparr> tx = Inl x))))"
proof (intro conjI impI)
  show no_state: "snd (fetchUserState env account) = None"
    by (simp add: snd_fetchUserState failed)
  have run: "post_try env a r i = buildTransaction env account reference (toString i)"
    by (rule post_try_parsed [OF parsed])
  show "handler (env\<lparr>fetch := (\<lambda>pda. Inl e')\<rparr>) req = handler env req"
  proof -
    have "fetchUserState (env\<lparr>fetch := (\<lambda>pda. Inl e')\<rparr>) account = fetchUserState env account"
      by (simp add: fetchUserState_def failed)
    then have "buildTransaction (env\<lparr>fetch := (\<lambda>pda. Inl e')\<rparr>) account reference (toString i) =
               buildTransaction env account reference (toString i)"
      by (simp add: buildTransaction_def finishTransaction_fetch_update
            split: prod.splits option.splits sum.splits)
    with parsed have "post_try (env\<lparr>fetch := (\<lambda>pda. Inl e')\<rparr>) a r i = post_try env a r i"
      by (simp add: post_try_def)
    then show ?thesis
      by (simp add: handler_post_present [OF assms(1-7)])
  qed
  {
    assume registered: "locationAtIndex (locations env) (toNumber env (toString i)) = Some loc"
    {
      assume "index loc \<noteq> 1"
      then have "\<not> verifyCorrectLocation (locations env) (snd (fetchUserState env account)) loc"
        by (simp add: no_state verifyCorrectLocation_def)
      then have "snd (post_try env a r i) =
                   Inl (Thrown (Some ''You must visit each location in order!''))"
        by (simp add: run buildTransaction_out_of_order [OF registered])
      from handler_post_thrown [OF assms(1-7) this]
      show "snd (handler env req) =
              Responded \<lparr>status = 200,
               body = TransactionBody '''' ''You must visit each location in order!''\<rparr>"
        by (simp add: truthy_def)
    }
    {
      assume "index loc = 1"
      then have "verifyCorrectLocation (locations env) (snd (fetchUserState env account)) loc"
        by (simp add: no_state verifyCorrectLocation_def)
      then show "fst (handler env req) = fst (fetchUserState env account) @ [GetLatestBlockhash]"
        by (simp add: fst_handler_post [OF assms(1-7)] run
              buildTransaction_in_order [OF registered])
    }
  }
  {
    assume "snd (post_try env a r i) = Inr s"
    then have "snd (buildTransaction env account reference (toString i)) = Inr s"
      by (simp add: run)
    from buildTransaction_returned [OF this] no_state
    show "\<exists>tx bytes k.
                s = base64 bytes
              \<and> serialize env \<lparr>requireAllSignatures = False\<rparr> tx = Inr bytes
              \<and> map call (instructions tx) = [Initialize (gameId env), CheckIn (gameId env) k]"
      by fastforce
  }
  {
    assume "\<exists>b. snd (handler env req) = Responded \<lparr>status = 500, body = b\<rparr>"
    then obtain b where internal: "snd (handler env req) = Responded \<lparr>status = 500, body = b\<rparr>"
      by blast
    obtain calls res where res: "buildTransaction env account reference (toString i) = (calls, res)"
      by (cases "buildTransaction env account reference (toString i)")
    from internal obtain x where x: "res = Inl x" "\<not> truthy (message x)"
      by (auto simp: handler_post_present [OF assms(1-7)] run res split: sum.splits if_splits)
    have thrown: "snd (buildTransaction env account reference (toString i)) = Inl x"
      by (simp add: res x(1))
    have "getLatestBlockhash env = Inl x
        \<or> (\<exists>m accs. buildInstruction env m accs = Inl x)
        \<or> (\<exists>tx. partialSignThrows env tx (eventOrganizer env) = Some x)
        \<or> (\<exists>tx. serialize env \<lparr>requireAllSignatures = False\<rparr> tx = Inl x)"
    proof (cases "locationAtIndex (locations env) (toNumber env (toString i))")
      case None
      with thrown x(2) show ?thesis
        by (auto simp: buildTransaction_unresolved truthy_def)
    next
      case (Some l)
      show ?thesis
      proof (cases "verifyCorrectLocation (locations env) (snd (fetchUserState env account)) l")
        case False
        with Some thrown x(2) show ?thesis
          by (auto simp: buildTransaction_out_of_order truthy_def)
      next
        case True
        show ?thesis
        proof (cases "getLatestBlockhash env")
          case (Inl y)
          with thrown show ?thesis
            by (simp add: buildTransaction_in_order [OF Some True])
        next
          case (Inr bh)
          with thrown have "finishTransaction env account reference l
              (snd (fetchUserState env account))
              \<lparr>feePayer = account, recentBlockhash = fst bh, lastValidBlockHeight = snd bh,
               instructions = [], signatures = []\<rparr> = Inl x"
            by (simp add: buildTransaction_in_order [OF Some True] split_beta)
          from finishTransaction_thrown [OF this] show ?thesis by blast
        qed
      qed
    qed
    with x(2) show "\<exists>x. \<not> truthy (message x)
               \<and> (getLatestBlockhash env = Inl x
                  \<or> (\<exists>m accs. buildInstruction env m accs = Inl x)
                  \<or> (\<exists>tx. partialSignThrows env tx (eventOrganizer env) = Some x)
                  \<or> (\<exists>tx. serialize env \<lparr>requireAllSignatures = False\<rparr> tx = Inl x))"
      by blast
  }
qed

theorem state_fetch_failure_counts_as_no_state_witness:
  "fetch demo_env (PublicKey ''GameAlice'') = Inl (Thrown (Some ''Account does not exist''))
   \<and> snd (fetchUserState demo_env (PublicKey ''Alice'')) = None
   \<and> handler (demo_env\<lparr>fetch := (\<lambda>pda. Inl (Thrown (Some ''socket hang up'')))\<rparr>)
        (demo_request ''1'') = handler demo_env (demo_request ''1'')
   \<and> snd (handler demo_env (demo_request ''2'')) =
       Responded \<lparr>status = 200, body = TransactionBody '''' ''You must visit each location in order!''\<rparr>
   \<and> fst (handler demo_env (demo_request ''1'')) =
       [FetchUserState (PublicKey ''GameAlice''), GetLatestBlockhash]
   \<and> snd (post_try demo_env ''Alice'' (Str ''Ref'') (Str ''1'')) = Inr ''AgE=''
   \<and> (\<exists>tx bytes k.
         ''AgE='' = base64 bytes
       \<and> serialize demo_env \<lparr>requireAllSignatures = False\<rparr> tx = Inr bytes
       \<and> map call (instructions tx) =
           [Initialize (PublicKey ''Game''), CheckIn (PublicKey ''Game'') k])
   \<and> snd (handler (demo_env\<lparr>getLatestBlockhash := Inl (Thrown None)\<rparr>) (demo_request ''1'')) =
       Responded \<lparr>status = 500, body = ErrorBody ''error creating transaction''\<rparr>
   \<and> (\<exists>x. \<not> truthy (message x)
         \<and> (getLatestBlockhash (demo_env\<lparr>getLatestBlockhash := Inl (Thrown None)\<rparr>) = Inl x
            \<or> (\<exists>m accs. buildInstruction (demo_env\<lparr>getLatestBlockhash := Inl (Thrown None)\<rparr>)
                           m accs = Inl x)
            \<or> (\<exists>tx. partialSignThrows (demo_env\<lparr>getLatestBlockhash := Inl (Thrown None)\<rparr>) tx
                       (eventOrganizer (demo_env\<lparr>getLatestBlockhash := Inl (Thrown None)\<rparr>)) =
                     Some x)
            \<or> (\<exists>tx. serialize (demo_env\<lparr>getLatestBlockhash := Inl (Thrown None)\<rparr>)
                       \<lparr>requireAllSignatures = False\<rparr> tx = Inl x)))"
proof -
  let ?silent = "demo_env\<lparr>getLatestBlockhash := Inl (Thrown None)\<rparr>"
  have req: "http_method (demo_request j) = Some ''POST''"
    "req_body (demo_request j) = Body (Some ''Alice'')" "''Alice'' \<noteq> []"
    "query_reference (demo_request j) = Some (Str ''Ref'')" "truthy_param (Some (Str ''Ref''))"
    "query_id (demo_request j) = Some (Str j)" for j
    by (simp_all add: demo_request_def truthy_param_def)
  have nonempty: "truthy_param (Some (Str ''1''))" "truthy_param (Some (Str ''2''))"
    by (simp_all add: truthy_param_def)
  have parsed: "newPublicKey demo_env (Str ''Alice'') = Inr (PublicKey ''Alice'')"
    "newPublicKey demo_env (Str ''Ref'') = Inr (PublicKey ''Ref'')"
    by (simp_all add: demo_env_def)
  have parsed': "newPublicKey ?silent (Str ''Alice'') = Inr (PublicKey ''Alice'')"
    "newPublicKey ?silent (Str ''Ref'') = Inr (PublicKey ''Ref'')"
    by (simp_all add: demo_env_def)
  have failed: "fetch demo_env (findProgramAddressSync demo_env
                  [gameId demo_env, PublicKey ''Alice''] (programId demo_env)) =
                Inl (Thrown (Some ''Account does not exist''))"
    by (simp add: demo_env_def)
  have failed': "fetch ?silent (findProgramAddressSync ?silent
                  [gameId ?silent, PublicKey ''Alice''] (programId ?silent)) =
                Inl (Thrown (Some ''Account does not exist''))"
    by (simp add: demo_env_def)
  have one: "locationAtIndex (locations demo_env) (toNumber demo_env (toString (Str ''1''))) =
               Some \<lparr>index = 1, key = PublicKey ''K1''\<rparr>"
    and two: "locationAtIndex (locations demo_env) (toNumber demo_env (toString (Str ''2''))) =
               Some \<lparr>index = 2, key = PublicKey ''K2''\<rparr>"
    by (simp_all add: demo_env_def demo_locations_def locationAtIndex_def)
  have run: "snd (post_try demo_env ''Alice'' (Str ''Ref'') (Str ''1'')) = Inr ''AgE=''"
    by code_simp
  have internal: "snd (handler ?silent (demo_request ''1'')) =
                    Responded \<lparr>status = 500, body = ErrorBody ''error creating transaction''\<rparr>"
    by code_simp
  have game: "gameId demo_env = PublicKey ''Game''"
    by (simp add: demo_env_def)
  note first = state_fetch_failure_counts_as_no_state
      [OF req nonempty(1) parsed failed, of "Thrown (Some ''socket hang up'')"
         "\<lparr>index = 1, key = PublicKey ''K1''\<rparr>" "''AgE=''"]
  note second = state_fetch_failure_counts_as_no_state
      [OF req nonempty(2) parsed failed, of "Thrown (Some ''socket hang up'')"
         "\<lparr>index = 2, key = PublicKey ''K2''\<rparr>" "''AgE=''"]
  note third = state_fetch_failure_counts_as_no_state
      [OF req nonempty(1) parsed' failed', of "Thrown (Some ''socket hang up'')"
         "\<lparr>index = 1, key = PublicKey ''K1''\<rparr>" "''AgE=''"]
  have a: "fetch demo_env (PublicKey ''GameAlice'') = Inl (Thrown (Some ''Account does not exist''))"
    by (simp add: demo_env_def)
  have b: "snd (fetchUserState demo_env (PublicKey ''Alice'')) = None"
    using first by blast
  have c: "handler (demo_env\<lparr>fetch := (\<lambda>pda. Inl (Thrown (Some ''socket hang up'')))\<rparr>)
        (demo_request ''1'') = handler demo_env (demo_request ''1'')"
    using first by blast
  have d: "snd (handler demo_env (demo_request ''2'')) =
       Responded \<lparr>status = 200, body = TransactionBody '''' ''You must visit each location in order!''\<rparr>"
    using second two by simp
  have e: "fst (handler demo_env (demo_request ''1'')) =
       [FetchUserState (PublicKey ''GameAlice''), GetLatestBlockhash]"
    using first one by (simp add: fst_fetchUserState demo_env_def)
  have f: "\<exists>tx bytes k.
         ''AgE='' = base64 bytes
       \<and> serialize demo_env \<lparr>requireAllSignatures = False\<rparr> tx = Inr bytes
       \<and> map call (instructions tx) =
           [Initialize (PublicKey ''Game''), CheckIn (PublicKey ''Game'') k]"
    using first run unfolding game by blast
  have g: "\<exists>x. \<not> truthy (message x)
         \<and> (getLatestBlockhash ?silent = Inl x
            \<or> (\<exists>m accs. buildInstruction ?silent m accs = Inl x)
            \<or> (\<exists>tx. partialSignThrows ?silent tx (eventOrganizer ?silent) = Some x)
            \<or> (\<exists>tx. serialize ?silent \<lparr>requireAllSignatures = False\<rparr> tx = Inl x))"
    using third internal by blast
  from a b c d e run f internal g show ?thesis by blast
qed

section \<open>Method dispatch\<close>

text \<open>
  Claim C8.  Every GET request is answered with status 200 and the fixed descriptor
  (label "Scavenger Hunt!" and the fixed icon address), whatever the body and the query
  hold and without any network read; every request whose method is neither GET nor POST
  is answered with status 405 and the error "Method not allowed".
\<close>

theorem handler_get_and_other_methods:
  "(http_method req = Some ''GET'' \<longrightarrow>
      handler env req =
        ([], Responded \<lparr>status = 200,
              body = Descriptor ''Scavenger Hunt!''
                       ''https://solana.com/src/img/branding/solanaLogoMark.svg''\<rparr>))
   \<and> (http_method req \<noteq> Some ''GET'' \<and> http_method req \<noteq> Some ''POST'' \<longrightarrow>
      handler env req = ([], Responded \<lparr>status = 405, body = ErrorBody ''Method not allowed''\<rparr>))"
  by (simp add: handler_def get_def)

theorem handler_get_and_other_methods_witness:
  "handler demo_env ((demo_request ''2'')\<lparr>http_method := Some ''GET''\<rparr>) =
     ([], Responded \<lparr>status = 200,
           body = Descriptor ''Scavenger Hunt!''
                    ''https://solana.com/src/img/branding/solanaLogoMark.svg''\<rparr>)
   \<and> handler demo_env ((demo_request ''2'')\<lparr>http_method := Some ''DELETE''\<rparr>) =
     ([], Responded \<lparr>status = 405, body = ErrorBody ''Method not allowed''\<rparr>)
   \<and> handler demo_env ((demo_request ''2'')\<lparr>http_method := None\<rparr>) =
     ([], Responded \<lparr>status = 405, body = ErrorBody ''Method not allowed''\<rparr>)"
  using handler_get_and_other_methods [of "(demo_request ''2'')\<lparr>http_method := Some ''GET''\<rparr>" demo_env]
    handler_get_and_other_methods [of "(demo_request ''2'')\<lparr>http_method := Some ''DELETE''\<rparr>" demo_env]
    handler_get_and_other_methods [of "(demo_request ''2'')\<lparr>http_method := None\<rparr>" demo_env]
  by (simp add: demo_request_def)

end
